theory Spec2Isabelle
  imports Main "HOL-Library.Word"
begin

section \<open>tensorflow/core/data/flat\_map\_utils.cc: the random-access handler of flat\_map\<close>

text \<open>
  The file implements \<^verbatim>\<open>FlatMapRandomAccessHandler\<close>: its constructor, its destructor,
  \<^verbatim>\<open>Cardinality()\<close>, \<^verbatim>\<open>ComputeCardinalities()\<close> and \<^verbatim>\<open>MakeInputDatasets()\<close>.
  The embedding keeps the source's names. A member loses its trailing underscore
  (\<^verbatim>\<open>input_datasets_\<close> is the field \<open>input_datasets\<close>), and a local vector that shares
  a member's name carries the suffix \<open>_v\<close>.
\<close>

subsection \<open>Statuses\<close>

text \<open>
  \<^verbatim>\<open>absl::Status\<close> is either OK or an error with a code and a message. An error is a
  value of \<open>error_status\<close>; a status is \<open>error_status option\<close> with \<open>None\<close> for OK; and
  \<^verbatim>\<open>absl::StatusOr<T>\<close> is \<open>error_status + T\<close> with \<open>Inl\<close> for the error.
\<close>

datatype status_code =
  kCancelled | kUnknown | kInvalidArgument | kDeadlineExceeded | kNotFound
  | kAlreadyExists | kPermissionDenied | kResourceExhausted | kFailedPrecondition
  | kAborted | kOutOfRange | kUnimplemented | kInternal | kUnavailable | kDataLoss
  | kUnauthenticated

datatype error_status = ErrorStatus status_code string

definition InvalidArgumentError :: "string \<Rightarrow> error_status" where
  "InvalidArgumentError message = ErrorStatus kInvalidArgument message"

subsection \<open>Tensors, datasets and 64-bit cardinalities\<close>

text \<open>
  A \<^verbatim>\<open>DatasetBase*\<close> is the identity of a dataset object. \<^verbatim>\<open>int64_t\<close> is a 64-bit word:
  addition wraps around, as on the two's-complement targets the library is built for.
\<close>

type_synonym dataset = nat

type_synonym int64 = "64 word"

datatype data_type = DT_VARIANT | DT_OTHER nat

record tensor =
  dtype :: data_type
  shape :: "nat list"
  payload :: nat

text \<open>
  Modelled from the spec: the two sentinels \<^verbatim>\<open>kInfiniteCardinality\<close> and
  \<^verbatim>\<open>kUnknownCardinality\<close> (the spec's INFINITE and UNKNOWN) are declared in
  \<^verbatim>\<open>tensorflow/core/framework/dataset.h\<close>, which is not part of the file. They are two
  distinct negative constants, \<open>-1\<close> and \<open>-2\<close>, so that no finite count \<open>\<ge> 0\<close> is one.
\<close>

definition kInfiniteCardinality :: int64 where
  "kInfiniteCardinality = - 1"

definition kUnknownCardinality :: int64 where
  "kUnknownCardinality = - 2"

text \<open>
  Modelled from the spec: \<^verbatim>\<open>TensorShapeUtils::IsScalar\<close> (declared in
  \<^verbatim>\<open>tensorflow/core/framework/tensor_shape.h\<close>) accepts the scalar, non-array shape, the
  one with no dimension.
\<close>

definition IsScalar :: "nat list \<Rightarrow> bool" where
  "IsScalar s = (length s = 0)"

subsection \<open>The collaborators\<close>

text \<open>
  Everything the handler calls outside the file is a field of \<open>collaborators\<close>:
  the result of cloning the function library in the constructor, of opening the iterator
  of the input dataset, of instantiating the captured function, the \<open>i\<close>-th answer of
  the iterator's \<^verbatim>\<open>GetNext\<close>, the captured function's \<^verbatim>\<open>Run\<close>, the decoder
  \<^verbatim>\<open>GetDatasetFromVariantTensor\<close> and the \<^verbatim>\<open>Cardinality()\<close> of a mapped dataset.
  The input may be infinite: \<open>GetNext\<close> answers at every position.
\<close>

datatype get_next_result =
  GetNextError error_status | EndOfSequence | NextElement "tensor list"

record collaborators =
  Clone :: "error_status option"
  MakeIterator :: "error_status option"
  Instantiate :: "error_status option"
  GetNext :: "nat \<Rightarrow> get_next_result"
  Run :: "tensor list \<Rightarrow> error_status + tensor list"
  GetDatasetFromVariantTensor :: "tensor \<Rightarrow> error_status + dataset"
  DatasetCardinality :: "dataset \<Rightarrow> int64"

text \<open>
  The calls the handler makes are recorded, in order, in a trace that every function
  takes and returns. Reference counts are read off the trace: \<open>acquired\<close> lists the
  datasets of the \<^verbatim>\<open>Ref()\<close> calls and \<open>released\<close> those of the \<^verbatim>\<open>Unref()\<close> calls.
\<close>

datatype event =
  CallClone | CallMakeIterator | CallInstantiate | CallGetNext
  | CallRun "tensor list" | CallGetDatasetFromVariantTensor tensor
  | CallRef dataset | CallUnref dataset | CallCardinality dataset

fun acquired :: "event list \<Rightarrow> dataset list" where
  "acquired [] = []"
| "acquired (CallRef d # tr) = d # acquired tr"
| "acquired (e # tr) = acquired tr"

fun released :: "event list \<Rightarrow> dataset list" where
  "released [] = []"
| "released (CallUnref d # tr) = d # released tr"
| "released (e # tr) = released tr"

subsection \<open>The handler\<close>

record FlatMapRandomAccessHandler =
  input_datasets :: "dataset list"
  cumulative_cardinalities :: "error_status + int64 list"

text \<open>
  Modelled from the spec: the default member initialisers are in the header
  \<^verbatim>\<open>flat_map_utils.h\<close>, which is not part of the file. Before the constructor's body
  runs nothing is computed: the table is an OK, empty vector and the list of datasets is
  empty (the spec's state Fresh).
\<close>

definition default_members :: FlatMapRandomAccessHandler where
  "default_members = \<lparr>input_datasets = [], cumulative_cardinalities = Inr []\<rparr>"

text \<open>
  The constructor (lines 40--64). When \<^verbatim>\<open>Clone\<close> fails the status is moved into
  \<^verbatim>\<open>cumulative_cardinalities_\<close> and the constructor returns; otherwise it builds the
  iterator context and leaves the members as they are.
\<close>

definition FlatMapRandomAccessHandler_ctor ::
  "collaborators \<Rightarrow> event list \<Rightarrow> FlatMapRandomAccessHandler \<times> event list" where
  "FlatMapRandomAccessHandler_ctor env tr =
     (case Clone env of
        Some status \<Rightarrow>
          (default_members\<lparr>cumulative_cardinalities := Inl status\<rparr>, tr @ [CallClone])
      | None \<Rightarrow> (default_members, tr @ [CallClone]))"

text \<open>The destructor (lines 66--71): one \<^verbatim>\<open>Unref\<close> per entry of the member, then clear.\<close>

definition FlatMapRandomAccessHandler_dtor ::
  "FlatMapRandomAccessHandler \<Rightarrow> event list \<Rightarrow> FlatMapRandomAccessHandler \<times> event list" where
  "FlatMapRandomAccessHandler_dtor h tr =
     (h\<lparr>input_datasets := []\<rparr>, tr @ map CallUnref (input_datasets h))"

subsection \<open>MakeInputDatasets\<close>

text \<open>
  The \<^verbatim>\<open>while (true)\<close> loop of lines 119--144, entered at the \<open>i\<close>-th pull with the local
  vector and the trace so far. It need not end, so it is a partial function: \<open>None\<close> is
  the run that never returns. An error return drops the local vector.
\<close>

partial_function (option) MakeInputDatasets_loop ::
  "collaborators \<Rightarrow> nat \<Rightarrow> dataset list \<Rightarrow> event list
     \<Rightarrow> ((error_status + dataset list) \<times> event list) option" where
  "MakeInputDatasets_loop env i input_datasets_v tr =
     (case GetNext env i of
        GetNextError e \<Rightarrow> Some (Inl e, tr @ [CallGetNext])
      | EndOfSequence \<Rightarrow> Some (Inr input_datasets_v, tr @ [CallGetNext])
      | NextElement input_tensors \<Rightarrow>
          (case Run env input_tensors of
             Inl e \<Rightarrow> Some (Inl e, tr @ [CallGetNext, CallRun input_tensors])
           | Inr mapped_tensors \<Rightarrow>
               if \<not> (length mapped_tensors = 1 \<and>
                      dtype (mapped_tensors ! 0) = DT_VARIANT \<and>
                      IsScalar (shape (mapped_tensors ! 0)))
               then Some (Inl (InvalidArgumentError
                 ''Flat map function must return a single scalar of dtype DT_VARIANT representing a dataset.''),
                 tr @ [CallGetNext, CallRun input_tensors])
               else
                 (case GetDatasetFromVariantTensor env (mapped_tensors ! 0) of
                    Inl e \<Rightarrow>
                      Some (Inl e, tr @ [CallGetNext, CallRun input_tensors,
                        CallGetDatasetFromVariantTensor (mapped_tensors ! 0)])
                  | Inr mapped_dataset \<Rightarrow>
                      MakeInputDatasets_loop env (Suc i) (input_datasets_v @ [mapped_dataset])
                        (tr @ [CallGetNext, CallRun input_tensors,
                          CallGetDatasetFromVariantTensor (mapped_tensors ! 0),
                          CallRef mapped_dataset]))))"

declare MakeInputDatasets_loop.simps [code]

definition MakeInputDatasets ::
  "collaborators \<Rightarrow> event list \<Rightarrow> ((error_status + dataset list) \<times> event list) option" where
  "MakeInputDatasets env tr =
     (case MakeIterator env of
        Some e \<Rightarrow> Some (Inl e, tr @ [CallMakeIterator])
      | None \<Rightarrow>
          (case Instantiate env of
             Some e \<Rightarrow> Some (Inl e, tr @ [CallMakeIterator, CallInstantiate])
           | None \<Rightarrow>
               MakeInputDatasets_loop env 0 [] (tr @ [CallMakeIterator, CallInstantiate])))"

subsection \<open>ComputeCardinalities\<close>

text \<open>
  The \<^verbatim>\<open>for\<close> loop of lines 89--101 at index \<open>i\<close>. It leaves either by the
  \<^verbatim>\<open>return\<close> of line 94 or by running off the end of the vector. \<^verbatim>\<open>back()\<close> is read
  only when \<open>i > 0\<close>, where the local table holds \<open>i\<close> entries.
\<close>

datatype 'a loop_exit = Return 'a | Fallthrough 'a

function ComputeCardinalities_loop ::
  "collaborators \<Rightarrow> dataset list \<Rightarrow> nat \<Rightarrow> int64 list \<Rightarrow> event list
     \<Rightarrow> int64 list loop_exit \<times> event list" where
  "ComputeCardinalities_loop env ds i cumulative_cardinalities_v tr =
     (if i < length ds then
        (let input_cardinality = DatasetCardinality env (ds ! i);
             tr1 = tr @ [CallCardinality (ds ! i)]
         in if input_cardinality = kInfiniteCardinality \<or>
               input_cardinality = kUnknownCardinality
            then (Return (cumulative_cardinalities_v @ [input_cardinality]), tr1)
            else
              (let cumulative_cardinality =
                     (if i > 0 then input_cardinality + last cumulative_cardinalities_v
                      else input_cardinality)
               in ComputeCardinalities_loop env ds (Suc i)
                    (cumulative_cardinalities_v @ [cumulative_cardinality]) tr1))
      else (Fallthrough cumulative_cardinalities_v, tr))"
  by pat_completeness auto
termination
  by (relation "measure (\<lambda>(env, ds, i, cc, tr). length ds - i)") auto

declare ComputeCardinalities_loop.simps [simp del]

text \<open>Lines 87--105: the table of the datasets the member holds.\<close>

definition ComputeCardinalities_table ::
  "collaborators \<Rightarrow> dataset list \<Rightarrow> event list \<Rightarrow> int64 list \<times> event list" where
  "ComputeCardinalities_table env ds tr =
     (case ComputeCardinalities_loop env ds 0 [] tr of
        (Return cumulative_cardinalities_v, tr1) \<Rightarrow> (cumulative_cardinalities_v, tr1)
      | (Fallthrough cumulative_cardinalities_v, tr1) \<Rightarrow>
          (if cumulative_cardinalities_v = [] then cumulative_cardinalities_v @ [0]
           else cumulative_cardinalities_v, tr1))"

text \<open>
  Lines 81--106. \<^verbatim>\<open>TF_ASSIGN_OR_RETURN\<close> returns the error of \<^verbatim>\<open>MakeInputDatasets\<close>
  and leaves the member as it was; otherwise the member takes the list.
\<close>

definition ComputeCardinalities ::
  "collaborators \<Rightarrow> FlatMapRandomAccessHandler \<Rightarrow> event list
     \<Rightarrow> ((error_status + int64 list) \<times> FlatMapRandomAccessHandler \<times> event list) option" where
  "ComputeCardinalities env h tr =
     (if input_datasets h = [] then
        (case MakeInputDatasets env tr of
           None \<Rightarrow> None
         | Some (Inl e, tr1) \<Rightarrow> Some (Inl e, h, tr1)
         | Some (Inr ds, tr1) \<Rightarrow>
             (case ComputeCardinalities_table env ds tr1 of
                (table, tr2) \<Rightarrow> Some (Inr table, h\<lparr>input_datasets := ds\<rparr>, tr2)))
      else
        (case ComputeCardinalities_table env (input_datasets h) tr of
           (table, tr2) \<Rightarrow> Some (Inr table, h, tr2)))"

subsection \<open>Cardinality\<close>

text \<open>
  A call either returns its \<^verbatim>\<open>StatusOr<int64_t>\<close> or ends the process.
  \<^verbatim>\<open>StatusOr::operator->\<close> requires an OK status: on an error absl's \<^verbatim>\<open>EnsureOk\<close>
  terminates the program. \<^verbatim>\<open>std::vector::back()\<close> requires a non-empty vector.
\<close>

datatype abort_reason = StatusOrNotOk | BackOfEmptyVector

datatype 'a call = Returns 'a | Aborts abort_reason

text \<open>Line 78: \<^verbatim>\<open>return cumulative_cardinalities_->back();\<close>\<close>

definition cumulative_cardinalities_back ::
  "FlatMapRandomAccessHandler \<Rightarrow> (error_status + int64) call" where
  "cumulative_cardinalities_back h =
     (case cumulative_cardinalities h of
        Inl e \<Rightarrow> Aborts StatusOrNotOk
      | Inr v \<Rightarrow> if v = [] then Aborts BackOfEmptyVector else Returns (Inr (last v)))"

text \<open>Lines 73--79.\<close>

definition Cardinality ::
  "collaborators \<Rightarrow> FlatMapRandomAccessHandler \<Rightarrow> event list
     \<Rightarrow> ((error_status + int64) call \<times> FlatMapRandomAccessHandler \<times> event list) option" where
  "Cardinality env h tr =
     (case cumulative_cardinalities h of
        Inl e \<Rightarrow> Some (Returns (Inl e), h, tr)
      | Inr v \<Rightarrow>
          if v = [] then
            (case ComputeCardinalities env h tr of
               None \<Rightarrow> None
             | Some (r, h1, tr1) \<Rightarrow>
                 Some (cumulative_cardinalities_back (h1\<lparr>cumulative_cardinalities := r\<rparr>),
                       h1\<lparr>cumulative_cardinalities := r\<rparr>, tr1))
          else Some (cumulative_cardinalities_back h, h, tr))"

text \<open>
  A client that calls \<^verbatim>\<open>Cardinality()\<close> \<open>n\<close> times in a row on the same handler. A call
  that ends the process is the last one.
\<close>

fun Cardinality_calls ::
  "collaborators \<Rightarrow> nat \<Rightarrow> FlatMapRandomAccessHandler \<Rightarrow> event list
     \<Rightarrow> ((error_status + int64) call list \<times> FlatMapRandomAccessHandler \<times> event list) option" where
  "Cardinality_calls env 0 h tr = Some ([], h, tr)"
| "Cardinality_calls env (Suc n) h tr =
     (case Cardinality env h tr of
        None \<Rightarrow> None
      | Some (Aborts a, h1, tr1) \<Rightarrow> Some ([Aborts a], h1, tr1)
      | Some (Returns r, h1, tr1) \<Rightarrow>
          (case Cardinality_calls env n h1 tr1 of
             None \<Rightarrow> None
           | Some (rs, h2, tr2) \<Rightarrow> Some (Returns r # rs, h2, tr2)))"

section \<open>Vocabulary of the properties\<close>

text \<open>A cardinality is finite when it is neither of the two sentinels (the test of lines 91--92).\<close>

definition finite_cardinality :: "int64 \<Rightarrow> bool" where
  "finite_cardinality c = (c \<noteq> kInfiniteCardinality \<and> c \<noteq> kUnknownCardinality)"

text \<open>
  The first \<open>n\<close> running sums over a list of datasets: entry \<open>j\<close> is the sum of the
  cardinalities of the datasets \<open>0..j\<close>, in \<^verbatim>\<open>int64_t\<close> arithmetic.
\<close>

definition prefix_sums :: "collaborators \<Rightarrow> dataset list \<Rightarrow> nat \<Rightarrow> int64 list" where
  "prefix_sums env ds n =
     map (\<lambda>j. sum_list (map (DatasetCardinality env) (take (Suc j) ds))) [0..<n]"

text \<open>
  What the collaborators make of the \<open>i\<close>-th pull: \<open>mapped_dataset env i\<close> is the dataset
  the iteration appends when every step of it succeeds (an element is pulled, the function
  runs, its result is one scalar \<^verbatim>\<open>DT_VARIANT\<close> tensor, the tensor decodes), and
  \<open>iteration_events env i\<close> are the calls such an iteration makes.
  \<open>materialization_events env n\<close> are the calls of the first \<open>n\<close> iterations.
\<close>

definition mapped_dataset :: "collaborators \<Rightarrow> nat \<Rightarrow> dataset option" where
  "mapped_dataset env i =
     (case GetNext env i of
        NextElement x \<Rightarrow>
          (case Run env x of
             Inr ts \<Rightarrow>
               if length ts = 1 \<and> dtype (ts ! 0) = DT_VARIANT \<and> IsScalar (shape (ts ! 0))
               then (case GetDatasetFromVariantTensor env (ts ! 0) of
                       Inr d \<Rightarrow> Some d
                     | Inl e \<Rightarrow> None)
               else None
           | Inl e \<Rightarrow> None)
      | GetNextError e \<Rightarrow> None
      | EndOfSequence \<Rightarrow> None)"

definition iteration_events :: "collaborators \<Rightarrow> nat \<Rightarrow> event list" where
  "iteration_events env i =
     (case GetNext env i of
        NextElement x \<Rightarrow>
          (case Run env x of
             Inr ts \<Rightarrow>
               (case GetDatasetFromVariantTensor env (ts ! 0) of
                  Inr d \<Rightarrow> [CallGetNext, CallRun x,
                             CallGetDatasetFromVariantTensor (ts ! 0), CallRef d]
                | Inl e \<Rightarrow> [])
           | Inl e \<Rightarrow> [])
      | GetNextError e \<Rightarrow> []
      | EndOfSequence \<Rightarrow> [])"

definition materialization_events :: "collaborators \<Rightarrow> nat \<Rightarrow> event list" where
  "materialization_events env n = concat (map (iteration_events env) [0..<n])"

text \<open>
  A family of concrete collaborators for the examples: everything succeeds, the input
  has one element per entry of \<open>cards\<close>, the \<open>i\<close>-th element is a scalar variant
  tensor that the function returns unchanged and that decodes to the dataset \<open>i\<close>, whose
  cardinality is \<open>cards ! i\<close>.
\<close>

definition variant_scalar :: "nat \<Rightarrow> tensor" where
  "variant_scalar i = \<lparr>dtype = DT_VARIANT, shape = [], payload = i\<rparr>"

definition source_of :: "int64 list \<Rightarrow> collaborators" where
  "source_of cards =
     \<lparr>Clone = None, MakeIterator = None, Instantiate = None,
      GetNext = (\<lambda>i. if i < length cards then NextElement [variant_scalar i]
                       else EndOfSequence),
      Run = (\<lambda>ts. Inr ts),
      GetDatasetFromVariantTensor = (\<lambda>t. Inr (payload t)),
      DatasetCardinality = (\<lambda>d. if d < length cards then cards ! d else 0)\<rparr>"

text \<open>
  The same collaborators, but the function returns two values (its input twice) for the
  element whose payload is \<open>n\<close>.
\<close>

definition returns_two_values_at :: "nat \<Rightarrow> collaborators \<Rightarrow> collaborators" where
  "returns_two_values_at n env =
     env\<lparr>Run := (\<lambda>ts. if map payload ts = [n] then Inr (ts @ ts) else Run env ts)\<rparr>"

section \<open>Lemmas\<close>

subsection \<open>The table is never empty\<close>

lemma ComputeCardinalities_loop_Return_nonempty:
  "ComputeCardinalities_loop env ds i cc tr = (Return v, tr1) \<Longrightarrow> v \<noteq> []"
proof (induction env ds i cc tr rule: ComputeCardinalities_loop.induct)
  case (1 env ds i cc tr)
  show ?case
  proof (cases "i < length ds")
    case False
    with "1.prems" show ?thesis
      by (simp add: ComputeCardinalities_loop.simps [of env ds i cc tr])
  next
    case True
    show ?thesis
    proof (cases "DatasetCardinality env (ds ! i) = kInfiniteCardinality \<or>
                  DatasetCardinality env (ds ! i) = kUnknownCardinality")
      case sentinel: True
      with True "1.prems" show ?thesis
        by (auto simp add: ComputeCardinalities_loop.simps [of env ds i cc tr] Let_def)
    next
      case finite: False
      with True "1.prems" have
        "ComputeCardinalities_loop env ds (Suc i)
           (cc @ [if i > 0 then DatasetCardinality env (ds ! i) + last cc
                  else DatasetCardinality env (ds ! i)])
           (tr @ [CallCardinality (ds ! i)]) = (Return v, tr1)"
        by (simp add: ComputeCardinalities_loop.simps [of env ds i cc tr] Let_def)
      with "1.IH" [OF True refl refl finite refl] show ?thesis
        by simp
    qed
  qed
qed

lemma ComputeCardinalities_table_nonempty:
  "ComputeCardinalities_table env ds tr = (table, tr1) \<Longrightarrow> table \<noteq> []"
  by (auto simp add: ComputeCardinalities_table_def
      split: prod.splits loop_exit.splits if_splits
      dest: ComputeCardinalities_loop_Return_nonempty)

lemma ComputeCardinalities_nonempty:
  "ComputeCardinalities env h tr = Some (Inr table, h1, tr1) \<Longrightarrow> table \<noteq> []"
  by (auto simp add: ComputeCardinalities_def
      split: if_splits option.splits prod.splits sum.splits
      dest: ComputeCardinalities_table_nonempty)

subsection \<open>The loop of ComputeCardinalities, unrolled over a finite prefix\<close>

lemma prefix_sums_Suc:
  "prefix_sums env ds (Suc n) =
     prefix_sums env ds n @ [sum_list (map (DatasetCardinality env) (take (Suc n) ds))]"
  by (simp add: prefix_sums_def)

lemma last_prefix_sums:
  "0 < n \<Longrightarrow> last (prefix_sums env ds n) = sum_list (map (DatasetCardinality env) (take n ds))"
  by (cases n) (simp_all add: prefix_sums_def)

lemma length_prefix_sums: "length (prefix_sums env ds n) = n"
  by (simp add: prefix_sums_def)

lemma nth_prefix_sums:
  "j < n \<Longrightarrow>
     prefix_sums env ds n ! j = sum_list (map (DatasetCardinality env) (take (Suc j) ds))"
  by (simp add: prefix_sums_def)

lemma prefix_sums_first:
  assumes "0 < n" and "0 < length ds"
  shows "prefix_sums env ds n ! 0 = DatasetCardinality env (ds ! 0)"
proof -
  from assms(2) have "take (Suc 0) ds = [ds ! 0]" by (cases ds) simp_all
  with assms(1) show ?thesis by (simp add: nth_prefix_sums)
qed

lemma ComputeCardinalities_loop_finite_step:
  assumes "n < length ds" and "finite_cardinality (DatasetCardinality env (ds ! n))"
  shows "ComputeCardinalities_loop env ds n (prefix_sums env ds n) (tr @ map CallCardinality (take n ds)) =
         ComputeCardinalities_loop env ds (Suc n) (prefix_sums env ds (Suc n))
           (tr @ map CallCardinality (take (Suc n) ds))"
proof -
  have sum: "sum_list (map (DatasetCardinality env) (take (Suc n) ds)) =
      (if 0 < n then DatasetCardinality env (ds ! n) + last (prefix_sums env ds n)
       else DatasetCardinality env (ds ! n))"
    using assms(1) by (simp add: take_Suc_conv_app_nth last_prefix_sums)
  have queries: "map CallCardinality (take (Suc n) ds) =
      map CallCardinality (take n ds) @ [CallCardinality (ds ! n)]"
    using assms(1) by (simp add: take_Suc_conv_app_nth)
  show ?thesis
    using assms
    by (subst ComputeCardinalities_loop.simps)
      (simp add: Let_def finite_cardinality_def prefix_sums_Suc sum queries)
qed

lemma ComputeCardinalities_loop_finite_prefix:
  assumes "n \<le> length ds" and "\<forall>j<n. finite_cardinality (DatasetCardinality env (ds ! j))"
  shows "ComputeCardinalities_loop env ds 0 [] tr =
         ComputeCardinalities_loop env ds n (prefix_sums env ds n)
           (tr @ map CallCardinality (take n ds))"
  using assms
proof (induction n)
  case 0
  show ?case by (simp add: prefix_sums_def)
next
  case (Suc n)
  then have "ComputeCardinalities_loop env ds 0 [] tr =
      ComputeCardinalities_loop env ds n (prefix_sums env ds n)
        (tr @ map CallCardinality (take n ds))"
    by simp
  also have "\<dots> = ComputeCardinalities_loop env ds (Suc n) (prefix_sums env ds (Suc n))
        (tr @ map CallCardinality (take (Suc n) ds))"
    using Suc.prems by (intro ComputeCardinalities_loop_finite_step) simp_all
  finally show ?case .
qed

lemma ComputeCardinalities_loop_all_finite:
  assumes "\<forall>j<length ds. finite_cardinality (DatasetCardinality env (ds ! j))"
  shows "ComputeCardinalities_loop env ds 0 [] tr =
         (Fallthrough (prefix_sums env ds (length ds)), tr @ map CallCardinality ds)"
proof -
  have "ComputeCardinalities_loop env ds 0 [] tr =
      ComputeCardinalities_loop env ds (length ds) (prefix_sums env ds (length ds))
        (tr @ map CallCardinality (take (length ds) ds))"
    using assms by (intro ComputeCardinalities_loop_finite_prefix) simp_all
  then show ?thesis
    by (simp add: ComputeCardinalities_loop.simps [of env ds "length ds"])
qed

lemma ComputeCardinalities_loop_first_sentinel:
  assumes "k < length ds"
    and "\<forall>j<k. finite_cardinality (DatasetCardinality env (ds ! j))"
    and "\<not> finite_cardinality (DatasetCardinality env (ds ! k))"
  shows "ComputeCardinalities_loop env ds 0 [] tr =
         (Return (prefix_sums env ds k @ [DatasetCardinality env (ds ! k)]),
          tr @ map CallCardinality (take (Suc k) ds))"
proof -
  have "ComputeCardinalities_loop env ds 0 [] tr =
      ComputeCardinalities_loop env ds k (prefix_sums env ds k)
        (tr @ map CallCardinality (take k ds))"
    using assms by (intro ComputeCardinalities_loop_finite_prefix) simp_all
  then show ?thesis
    using assms(1,3)
    by (auto simp add: ComputeCardinalities_loop.simps [of env ds k] Let_def
        finite_cardinality_def take_Suc_conv_app_nth)
qed

lemma ComputeCardinalities_table_all_finite:
  assumes "\<forall>j<length ds. finite_cardinality (DatasetCardinality env (ds ! j))"
  shows "ComputeCardinalities_table env ds tr =
         (if ds = [] then [0] else prefix_sums env ds (length ds), tr @ map CallCardinality ds)"
  using ComputeCardinalities_loop_all_finite [OF assms]
  by (simp add: ComputeCardinalities_table_def prefix_sums_def)

lemma ComputeCardinalities_table_first_sentinel:
  assumes "k < length ds"
    and "\<forall>j<k. finite_cardinality (DatasetCardinality env (ds ! j))"
    and "\<not> finite_cardinality (DatasetCardinality env (ds ! k))"
  shows "ComputeCardinalities_table env ds tr =
         (prefix_sums env ds k @ [DatasetCardinality env (ds ! k)],
          tr @ map CallCardinality (take (Suc k) ds))"
  using ComputeCardinalities_loop_first_sentinel [OF assms]
  by (simp add: ComputeCardinalities_table_def)

lemma ComputeCardinalities_table_Nil:
  "ComputeCardinalities_table env [] tr = ([0], tr)"
  by (simp add: ComputeCardinalities_table_def ComputeCardinalities_loop.simps [of env "[]" 0])

lemma first_sentinel:
  assumes "\<not> (\<forall>j<length ds. finite_cardinality (DatasetCardinality env (ds ! j)))"
  obtains k where "k < length ds"
    and "\<forall>j<k. finite_cardinality (DatasetCardinality env (ds ! j))"
    and "\<not> finite_cardinality (DatasetCardinality env (ds ! k))"
proof -
  define P where "P k \<longleftrightarrow> k < length ds \<and> \<not> finite_cardinality (DatasetCardinality env (ds ! k))"
    for k
  from assms have "\<exists>k. P k" by (auto simp add: P_def)
  then have least: "P (LEAST k. P k)" by (rule LeastI_ex)
  have "\<forall>j<(LEAST k. P k). finite_cardinality (DatasetCardinality env (ds ! j))"
  proof (intro allI impI)
    fix j assume "j < (LEAST k. P k)"
    then have "\<not> P j" by (rule not_less_Least)
    moreover from \<open>j < (LEAST k. P k)\<close> least have "j < length ds" by (simp add: P_def)
    ultimately show "finite_cardinality (DatasetCardinality env (ds ! j))"
      by (simp add: P_def)
  qed
  then have minimal: "\<forall>j<(LEAST k. P k). finite_cardinality (DatasetCardinality env (ds ! j))" .
  from least have bound: "(LEAST k. P k) < length ds"
    and sentinel: "\<not> finite_cardinality (DatasetCardinality env (ds ! (LEAST k. P k)))"
    by (simp_all add: P_def)
  from bound minimal sentinel show thesis by (rule that)
qed

lemma ComputeCardinalities_table_finite_prefix:
  assumes "i < length ds"
    and "\<forall>j\<le>i. finite_cardinality (DatasetCardinality env (ds ! j))"
  obtains table tr2 where "ComputeCardinalities_table env ds tr1 = (table, tr2)"
    and "i < length table" and "length table \<le> length ds"
    and "table ! i = sum_list (map (DatasetCardinality env) (take (Suc i) ds))"
    and "table ! 0 = DatasetCardinality env (ds ! 0)"
proof (cases "\<forall>j<length ds. finite_cardinality (DatasetCardinality env (ds ! j))")
  case True
  from assms(1) have nonempty: "ds \<noteq> []" and positive: "0 < length ds" by auto
  from ComputeCardinalities_table_all_finite [OF True, of tr1] nonempty
  have table: "ComputeCardinalities_table env ds tr1 =
      (prefix_sums env ds (length ds), tr1 @ map CallCardinality ds)"
    by simp
  from positive positive
  have first: "prefix_sums env ds (length ds) ! 0 = DatasetCardinality env (ds ! 0)"
    by (rule prefix_sums_first)
  from assms(1) have entry: "prefix_sums env ds (length ds) ! i =
      sum_list (map (DatasetCardinality env) (take (Suc i) ds))"
    by (rule nth_prefix_sums)
  from assms(1) have lens: "i < length (prefix_sums env ds (length ds))"
    "length (prefix_sums env ds (length ds)) \<le> length ds"
    by (simp_all add: length_prefix_sums)
  from table lens entry first show thesis by (rule that)
next
  case False
  then obtain k where k: "k < length ds"
      "\<forall>j<k. finite_cardinality (DatasetCardinality env (ds ! j))"
      "\<not> finite_cardinality (DatasetCardinality env (ds ! k))"
    by (rule first_sentinel)
  have "i < k"
  proof (rule ccontr)
    assume "\<not> i < k"
    then have "k \<le> i" by simp
    with assms(2) have "finite_cardinality (DatasetCardinality env (ds ! k))" by simp
    with k(3) show False by simp
  qed
  let ?table = "prefix_sums env ds k @ [DatasetCardinality env (ds ! k)]"
  have table: "ComputeCardinalities_table env ds tr1 =
      (?table, tr1 @ map CallCardinality (take (Suc k) ds))"
    using k by (rule ComputeCardinalities_table_first_sentinel)
  from \<open>i < k\<close> have "0 < k" by simp
  then have "?table ! 0 = prefix_sums env ds k ! 0"
    by (simp add: nth_append length_prefix_sums)
  also from \<open>0 < k\<close> k(1) have "\<dots> = DatasetCardinality env (ds ! 0)"
    by (intro prefix_sums_first) auto
  finally have first: "?table ! 0 = DatasetCardinality env (ds ! 0)" .
  from \<open>i < k\<close> have "?table ! i = prefix_sums env ds k ! i"
    by (simp add: nth_append length_prefix_sums)
  also from \<open>i < k\<close> have "\<dots> = sum_list (map (DatasetCardinality env) (take (Suc i) ds))"
    by (rule nth_prefix_sums)
  finally have entry: "?table ! i = sum_list (map (DatasetCardinality env) (take (Suc i) ds))" .
  from \<open>i < k\<close> k(1) have lens: "i < length ?table" "length ?table \<le> length ds"
    by (simp_all add: length_prefix_sums)
  from table lens entry first show thesis by (rule that)
qed

lemma ComputeCardinalities_table_trace:
  obtains m where "snd (ComputeCardinalities_table env ds tr) = tr @ map CallCardinality (take m ds)"
proof (cases "\<forall>j<length ds. finite_cardinality (DatasetCardinality env (ds ! j))")
  case True
  from ComputeCardinalities_table_all_finite [OF True, of tr]
  have "snd (ComputeCardinalities_table env ds tr) = tr @ map CallCardinality (take (length ds) ds)"
    by simp
  then show thesis by (rule that)
next
  case False
  then obtain k where "k < length ds"
      "\<forall>j<k. finite_cardinality (DatasetCardinality env (ds ! j))"
      "\<not> finite_cardinality (DatasetCardinality env (ds ! k))"
    by (rule first_sentinel)
  then have "ComputeCardinalities_table env ds tr =
      (prefix_sums env ds k @ [DatasetCardinality env (ds ! k)],
       tr @ map CallCardinality (take (Suc k) ds))"
    by (rule ComputeCardinalities_table_first_sentinel)
  then have "snd (ComputeCardinalities_table env ds tr) = tr @ map CallCardinality (take (Suc k) ds)"
    by simp
  then show thesis by (rule that)
qed

lemma ComputeCardinalities_table_shape:
  assumes "ComputeCardinalities_table env ds tr = (table, tr1)"
  shows "(ds = [] \<and> table = [0]) \<or>
         (\<exists>k<length ds.
            (\<forall>j<k. finite_cardinality (DatasetCardinality env (ds ! j))) \<and>
            \<not> finite_cardinality (DatasetCardinality env (ds ! k)) \<and>
            table = prefix_sums env ds k @ [DatasetCardinality env (ds ! k)]) \<or>
         (ds \<noteq> [] \<and> table = prefix_sums env ds (length ds))"
proof (cases "\<forall>j<length ds. finite_cardinality (DatasetCardinality env (ds ! j))")
  case True
  from ComputeCardinalities_table_all_finite [OF True, of tr] assms
  have "table = (if ds = [] then [0] else prefix_sums env ds (length ds))"
    by simp
  then show ?thesis by (cases "ds = []") simp_all
next
  case False
  then obtain k where k: "k < length ds"
      "\<forall>j<k. finite_cardinality (DatasetCardinality env (ds ! j))"
      "\<not> finite_cardinality (DatasetCardinality env (ds ! k))"
    by (rule first_sentinel)
  from ComputeCardinalities_table_first_sentinel [OF k, of tr] assms
  have "table = prefix_sums env ds k @ [DatasetCardinality env (ds ! k)]"
    by simp
  with k show ?thesis by blast
qed

lemma ComputeCardinalities_Inr:
  assumes "ComputeCardinalities env h tr = Some (Inr table, h1, tr1)"
  obtains tr0 where
    "ComputeCardinalities_table env (input_datasets h1) tr0 = (table, tr1)"
proof (cases "input_datasets h = []")
  case False
  with assms have "ComputeCardinalities_table env (input_datasets h1) tr = (table, tr1)"
    by (auto simp add: ComputeCardinalities_def split: prod.splits)
  then show thesis by (rule that)
next
  case True
  with assms obtain ds tr0 where "MakeInputDatasets env tr = Some (Inr ds, tr0)"
    and "ComputeCardinalities_table env ds tr0 = (table, tr1)"
    and "h1 = h\<lparr>input_datasets := ds\<rparr>"
    by (auto simp add: ComputeCardinalities_def split: option.splits prod.splits sum.splits)
  then have "ComputeCardinalities_table env (input_datasets h1) tr0 = (table, tr1)"
    by simp
  then show thesis by (rule that)
qed

subsection \<open>Sums of 64-bit words as integers\<close>

text \<open>
  The running sums are sums of 64-bit words. Where the cardinalities are non-negative and
  their sum as integers stays below \<open>2 ^ 63\<close>, the signed value of the word sum is
  that integer sum.
\<close>

lemma sint_add_no_overflow:
  fixes x y :: int64
  assumes "0 \<le> sint x" and "0 \<le> sint y" and "sint x + sint y < 2 ^ 63"
  shows "sint (x + y) = sint x + sint y"
proof -
  have "sint (x + y) = signed_take_bit 63 (sint x + sint y)"
    by (simp add: sint_word_add)
  also have "\<dots> = sint x + sint y"
    using assms by (intro signed_take_bit_int_eq_self) simp_all
  finally show ?thesis .
qed

lemma sint_sum_list_no_overflow:
  fixes xs :: "int64 list"
  assumes "\<forall>x\<in>set xs. 0 \<le> sint x" and "sum_list (map sint xs) < 2 ^ 63"
  shows "sint (sum_list xs) = sum_list (map sint xs)"
  using assms
proof (induction xs)
  case Nil
  show ?case by simp
next
  case (Cons x xs)
  from Cons.prems have nonneg: "0 \<le> sint x" "\<forall>y\<in>set xs. 0 \<le> sint y" by simp_all
  from nonneg(2) have rest_nonneg: "0 \<le> sum_list (map sint xs)"
    by (intro sum_list_nonneg) auto
  from Cons.prems(2) nonneg(1) have "sum_list (map sint xs) < 2 ^ 63" by simp
  with Cons.IH nonneg(2) have rest: "sint (sum_list xs) = sum_list (map sint xs)" by simp
  have "sint (x + sum_list xs) = sint x + sint (sum_list xs)"
    using nonneg(1) rest rest_nonneg Cons.prems(2)
    by (intro sint_add_no_overflow) simp_all
  with rest show ?case by simp
qed

lemma sum_list_take_Suc:
  fixes f :: "'a \<Rightarrow> int"
  shows "i < length xs \<Longrightarrow> sum_list (map f (take (Suc i) xs)) = (\<Sum>j\<le>i. f (xs ! j))"
proof (induction i)
  case 0
  then have "take (Suc 0) xs = [xs ! 0]" by (cases xs) simp_all
  then show ?case by simp
next
  case (Suc i)
  then have "take (Suc (Suc i)) xs = take (Suc i) xs @ [xs ! Suc i]"
    by (simp add: take_Suc_conv_app_nth)
  with Suc show ?case by simp
qed

lemma prefix_sum_as_integer:
  assumes "\<forall>j\<le>i. 0 \<le> sint (DatasetCardinality env (ds ! j))"
    and "i < length ds"
    and "(\<Sum>j\<le>i. sint (DatasetCardinality env (ds ! j))) < 2 ^ 63"
  shows "sint (sum_list (map (DatasetCardinality env) (take (Suc i) ds))) =
         (\<Sum>j\<le>i. sint (DatasetCardinality env (ds ! j)))"
proof -
  let ?xs = "map (DatasetCardinality env) (take (Suc i) ds)"
  have "sum_list (map sint ?xs) =
      sum_list (map (\<lambda>d. sint (DatasetCardinality env d)) (take (Suc i) ds))"
    by (simp add: comp_def)
  also from assms(2) have "\<dots> = (\<Sum>j\<le>i. sint (DatasetCardinality env (ds ! j)))"
    by (rule sum_list_take_Suc)
  finally have sum: "sum_list (map sint ?xs) = (\<Sum>j\<le>i. sint (DatasetCardinality env (ds ! j)))" .
  have "\<forall>x\<in>set ?xs. 0 \<le> sint x"
  proof
    fix x assume "x \<in> set ?xs"
    then obtain d where d: "d \<in> set (take (Suc i) ds)" and x: "x = DatasetCardinality env d"
      by auto
    from d obtain j where "j < length (take (Suc i) ds)" and "d = take (Suc i) ds ! j"
      by (metis in_set_conv_nth)
    then have "j \<le> i" and "d = ds ! j" by simp_all
    with assms(1) x show "0 \<le> sint x" by simp
  qed
  moreover from sum assms(3) have "sum_list (map sint ?xs) < 2 ^ 63" by simp
  ultimately have "sint (sum_list ?xs) = sum_list (map sint ?xs)"
    by (rule sint_sum_list_no_overflow)
  with sum show ?thesis by simp
qed

subsection \<open>The loop of MakeInputDatasets, unrolled over a successful prefix\<close>

lemma MakeInputDatasets_loop_step:
  assumes "mapped_dataset env i = Some d"
  shows "MakeInputDatasets_loop env i acc tr =
         MakeInputDatasets_loop env (Suc i) (acc @ [d]) (tr @ iteration_events env i)"
  using assms
  by (subst MakeInputDatasets_loop.simps)
    (auto simp add: mapped_dataset_def iteration_events_def
      split: get_next_result.splits sum.splits if_splits)

lemma MakeInputDatasets_loop_prefix:
  assumes "n \<le> length ds" and "\<forall>j<n. mapped_dataset env j = Some (ds ! j)"
  shows "MakeInputDatasets_loop env 0 [] tr =
         MakeInputDatasets_loop env n (take n ds) (tr @ materialization_events env n)"
  using assms
proof (induction n)
  case 0
  show ?case by (simp add: materialization_events_def)
next
  case (Suc n)
  then have "MakeInputDatasets_loop env 0 [] tr =
      MakeInputDatasets_loop env n (take n ds) (tr @ materialization_events env n)"
    by simp
  also have "\<dots> = MakeInputDatasets_loop env (Suc n) (take n ds @ [ds ! n])
      ((tr @ materialization_events env n) @ iteration_events env n)"
    using Suc.prems by (intro MakeInputDatasets_loop_step) simp
  finally show ?case
    using Suc.prems by (simp add: take_Suc_conv_app_nth materialization_events_def)
qed

lemma MakeInputDatasets_success:
  assumes "MakeIterator env = None" and "Instantiate env = None"
    and "\<forall>j<length ds. mapped_dataset env j = Some (ds ! j)"
    and "GetNext env (length ds) = EndOfSequence"
  shows "MakeInputDatasets env tr =
         Some (Inr ds, tr @ [CallMakeIterator, CallInstantiate] @
                 materialization_events env (length ds) @ [CallGetNext])"
proof -
  have "MakeInputDatasets_loop env 0 [] (tr @ [CallMakeIterator, CallInstantiate]) =
      MakeInputDatasets_loop env (length ds) (take (length ds) ds)
        ((tr @ [CallMakeIterator, CallInstantiate]) @ materialization_events env (length ds))"
    using assms(3) by (intro MakeInputDatasets_loop_prefix) simp_all
  then show ?thesis
    using assms(1,2,4)
    by (simp add: MakeInputDatasets_def MakeInputDatasets_loop.simps [of env "length ds"])
qed

lemma MakeInputDatasets_invalid_shape:
  assumes "MakeIterator env = None" and "Instantiate env = None"
    and "\<forall>j<i. mapped_dataset env j \<noteq> None"
    and "GetNext env i = NextElement x" and "Run env x = Inr mapped_tensors"
    and "\<not> (length mapped_tensors = 1 \<and> dtype (mapped_tensors ! 0) = DT_VARIANT \<and>
            IsScalar (shape (mapped_tensors ! 0)))"
  shows "MakeInputDatasets env tr =
         Some (Inl (InvalidArgumentError
           ''Flat map function must return a single scalar of dtype DT_VARIANT representing a dataset.''),
           tr @ [CallMakeIterator, CallInstantiate] @ materialization_events env i @
             [CallGetNext, CallRun x])"
proof -
  define ds where "ds = map (\<lambda>j. the (mapped_dataset env j)) [0..<i]"
  have "MakeInputDatasets_loop env 0 [] (tr @ [CallMakeIterator, CallInstantiate]) =
      MakeInputDatasets_loop env i (take i ds)
        ((tr @ [CallMakeIterator, CallInstantiate]) @ materialization_events env i)"
    using assms(3) by (intro MakeInputDatasets_loop_prefix) (auto simp add: ds_def)
  then show ?thesis
    using assms(1,2,4,5,6)
    by (simp add: MakeInputDatasets_def MakeInputDatasets_loop.simps [of env i])
qed

subsection \<open>The first call on a handler that has computed nothing\<close>

lemma update_input_datasets_same:
  "input_datasets h = ds \<Longrightarrow> h\<lparr>input_datasets := ds\<rparr> = h"
  by (cases h) simp

lemma ComputeCardinalities_fresh:
  assumes "input_datasets h = []"
    and "MakeInputDatasets env tr = Some (Inr ds, tr1)"
    and "ComputeCardinalities_table env ds tr1 = (table, tr2)"
  shows "ComputeCardinalities env h tr = Some (Inr table, h\<lparr>input_datasets := ds\<rparr>, tr2)"
  using assms by (simp add: ComputeCardinalities_def)

lemma Cardinality_fresh:
  assumes "cumulative_cardinalities h = Inr []"
    and "ComputeCardinalities env h tr = Some (Inr table, h1, tr1)"
  shows "Cardinality env h tr =
         Some (Returns (Inr (last table)), h1\<lparr>cumulative_cardinalities := Inr table\<rparr>, tr1)"
  using assms ComputeCardinalities_nonempty [OF assms(2)]
  by (simp add: Cardinality_def cumulative_cardinalities_back_def)

lemma Cardinality_aborts_on_error:
  assumes "cumulative_cardinalities h = Inr []"
    and "ComputeCardinalities env h tr = Some (Inl e, h1, tr1)"
  shows "Cardinality env h tr =
         Some (Aborts StatusOrNotOk, h1\<lparr>cumulative_cardinalities := Inl e\<rparr>, tr1)"
  using assms by (simp add: Cardinality_def cumulative_cardinalities_back_def)

subsection \<open>Calls in a failed or computed state\<close>

lemma Cardinality_failed:
  "cumulative_cardinalities h = Inl e \<Longrightarrow> Cardinality env h tr = Some (Returns (Inl e), h, tr)"
  by (simp add: Cardinality_def)

lemma Cardinality_computed:
  "cumulative_cardinalities h = Inr v \<Longrightarrow> v \<noteq> [] \<Longrightarrow>
     Cardinality env h tr = Some (Returns (Inr (last v)), h, tr)"
  by (simp add: Cardinality_def cumulative_cardinalities_back_def)

lemma Cardinality_calls_returning:
  "Cardinality env h tr = Some (Returns r, h, tr) \<Longrightarrow>
     Cardinality_calls env n h tr = Some (replicate n (Returns r), h, tr)"
  by (induction n) simp_all

lemma Cardinality_cached:
  assumes "cumulative_cardinalities h \<noteq> Inr []"
  obtains r where "Cardinality env h tr = Some (Returns r, h, tr)"
proof (cases "cumulative_cardinalities h")
  case (Inl e)
  then show thesis by (intro that [of "Inl e"] Cardinality_failed)
next
  case (Inr v)
  with assms have "v \<noteq> []" by simp
  with Inr show thesis by (intro that [of "Inr (last v)"] Cardinality_computed)
qed

lemma Cardinality_leaves_cached:
  assumes "Cardinality env h tr = Some (c, h1, tr1)"
  shows "cumulative_cardinalities h1 \<noteq> Inr []"
proof (cases "cumulative_cardinalities h = Inr []")
  case False
  then obtain r where "Cardinality env h tr = Some (Returns r, h, tr)"
    by (rule Cardinality_cached)
  with assms False show ?thesis by simp
next
  case True
  with assms obtain r h0 where
    computed: "ComputeCardinalities env h tr = Some (r, h0, tr1)"
    and h1: "h1 = h0\<lparr>cumulative_cardinalities := r\<rparr>"
    by (auto simp add: Cardinality_def split: option.splits)
  show ?thesis
  proof (cases r)
    case (Inl e)
    with h1 show ?thesis by simp
  next
    case (Inr table)
    with computed have "table \<noteq> []" by (simp add: ComputeCardinalities_nonempty)
    with h1 Inr show ?thesis by simp
  qed
qed

lemma Cardinality_returns_again:
  assumes "Cardinality env h tr = Some (Returns r, h1, tr1)"
  shows "Cardinality env h1 tr1 = Some (Returns r, h1, tr1)"
proof (cases "cumulative_cardinalities h = Inr []")
  case False
  then obtain r' where "Cardinality env h tr = Some (Returns r', h, tr)"
    by (rule Cardinality_cached)
  with assms show ?thesis by simp
next
  case True
  with assms obtain s h0 where
    h1: "h1 = h0\<lparr>cumulative_cardinalities := s\<rparr>"
    and returned: "cumulative_cardinalities_back (h0\<lparr>cumulative_cardinalities := s\<rparr>) = Returns r"
    by (auto simp add: Cardinality_def split: option.splits)
  from returned obtain table where "s = Inr table" "table \<noteq> []" "r = Inr (last table)"
    by (auto simp add: cumulative_cardinalities_back_def split: sum.splits if_splits)
  with h1 show ?thesis
    by (simp add: Cardinality_computed)
qed

lemma Cardinality_calls_idempotent:
  assumes "Cardinality env h tr = Some (Returns r, h1, tr1)"
  shows "Cardinality_calls env (Suc n) h tr = Some (replicate (Suc n) (Returns r), h1, tr1)"
proof -
  from assms have "Cardinality env h1 tr1 = Some (Returns r, h1, tr1)"
    by (rule Cardinality_returns_again)
  then have "Cardinality_calls env n h1 tr1 = Some (replicate n (Returns r), h1, tr1)"
    by (rule Cardinality_calls_returning)
  with assms show ?thesis by simp
qed

subsection \<open>Ownership of the mapped datasets\<close>

lemma acquired_append: "acquired (tr @ tr') = acquired tr @ acquired tr'"
  by (induction tr rule: acquired.induct) simp_all

lemma released_append: "released (tr @ tr') = released tr @ released tr'"
  by (induction tr rule: released.induct) simp_all

lemma acquired_CallCardinality: "acquired (map CallCardinality ds) = []"
  by (induction ds) simp_all

lemma released_CallCardinality: "released (map CallCardinality ds) = []"
  by (induction ds) simp_all

lemma acquired_CallUnref: "acquired (map CallUnref ds) = []"
  by (induction ds) simp_all

lemma released_CallUnref: "released (map CallUnref ds) = ds"
  by (induction ds) simp_all

lemma iteration_events_ownership:
  "mapped_dataset env i = Some d \<Longrightarrow>
     acquired (iteration_events env i) = [d] \<and> released (iteration_events env i) = []"
  by (auto simp add: mapped_dataset_def iteration_events_def
      split: get_next_result.splits sum.splits if_splits)

lemma materialization_events_ownership:
  assumes "n \<le> length ds" and "\<forall>j<n. mapped_dataset env j = Some (ds ! j)"
  shows "acquired (materialization_events env n) = take n ds \<and>
         released (materialization_events env n) = []"
  using assms
proof (induction n)
  case 0
  show ?case by (simp add: materialization_events_def)
next
  case (Suc n)
  from Suc.prems have "mapped_dataset env n = Some (ds ! n)" by simp
  then have "acquired (iteration_events env n) = [ds ! n]"
    and "released (iteration_events env n) = []"
    by (simp_all add: iteration_events_ownership)
  moreover from Suc have "acquired (materialization_events env n) = take n ds"
    and "released (materialization_events env n) = []"
    by simp_all
  ultimately show ?case
    using Suc.prems
    by (simp add: materialization_events_def acquired_append released_append
        take_Suc_conv_app_nth)
qed

text \<open>
  What does hold of the ownership: when the whole input materializes, to the list
  \<open>ds\<close>, the first \<^verbatim>\<open>Cardinality()\<close> acquires exactly the entries of \<open>ds\<close>, one
  \<^verbatim>\<open>Ref\<close> each and in order, the member holds \<open>ds\<close>, and the destructor releases
  exactly these, one \<^verbatim>\<open>Unref\<close> each, and clears the member.
\<close>

lemma ownership_on_success:
  assumes "MakeIterator env = None" and "Instantiate env = None"
    and "\<forall>j<length ds. mapped_dataset env j = Some (ds ! j)"
    and "GetNext env (length ds) = EndOfSequence"
    and "input_datasets h = []" and "cumulative_cardinalities h = Inr []"
  shows "\<exists>r h1 tr1.
      Cardinality env h tr = Some (Returns r, h1, tr1) \<and>
      input_datasets h1 = ds \<and>
      acquired tr1 = acquired tr @ ds \<and> released tr1 = released tr \<and>
      input_datasets (fst (FlatMapRandomAccessHandler_dtor h1 tr1)) = [] \<and>
      acquired (snd (FlatMapRandomAccessHandler_dtor h1 tr1)) = acquired tr @ ds \<and>
      released (snd (FlatMapRandomAccessHandler_dtor h1 tr1)) = released tr @ ds"
proof -
  let ?tr0 = "tr @ [CallMakeIterator, CallInstantiate] @
      materialization_events env (length ds) @ [CallGetNext]"
  have materialized: "MakeInputDatasets env tr = Some (Inr ds, ?tr0)"
    using assms(1-4) by (rule MakeInputDatasets_success)
  obtain table tr1 where table: "ComputeCardinalities_table env ds ?tr0 = (table, tr1)"
    by (cases "ComputeCardinalities_table env ds ?tr0")
  obtain m where "snd (ComputeCardinalities_table env ds ?tr0) =
      ?tr0 @ map CallCardinality (take m ds)"
    by (rule ComputeCardinalities_table_trace)
  with table have tr1: "tr1 = ?tr0 @ map CallCardinality (take m ds)" by simp
  have computed: "ComputeCardinalities env h tr =
      Some (Inr table, h\<lparr>input_datasets := ds\<rparr>, tr1)"
    using assms(5) materialized table by (rule ComputeCardinalities_fresh)
  from Cardinality_fresh [OF assms(6) computed]
  have called: "Cardinality env h tr =
      Some (Returns (Inr (last table)),
            h\<lparr>input_datasets := ds, cumulative_cardinalities := Inr table\<rparr>, tr1)"
    by simp
  from materialization_events_ownership [of "length ds" ds env] assms(3)
  have owned: "acquired (materialization_events env (length ds)) = ds"
    "released (materialization_events env (length ds)) = []"
    by simp_all
  have "acquired tr1 = acquired tr @ ds" and "released tr1 = released tr"
    by (simp_all add: tr1 acquired_append released_append owned
        acquired_CallCardinality released_CallCardinality)
  with called show ?thesis
    by (intro exI [of _ "Inr (last table)"]
        exI [of _ "h\<lparr>input_datasets := ds, cumulative_cardinalities := Inr table\<rparr>"]
        exI [of _ tr1])
      (simp add: FlatMapRandomAccessHandler_dtor_def acquired_append released_append
        acquired_CallUnref released_CallUnref)
qed

subsection \<open>The examples, evaluated\<close>

lemma finite_cardinality_numerals:
  "finite_cardinality 0" "finite_cardinality 3" "finite_cardinality 4" "finite_cardinality 5"
  "finite_cardinality 7" "\<not> finite_cardinality (- 1)" "\<not> finite_cardinality (- 2)"
  by (simp_all add: finite_cardinality_def kInfiniteCardinality_def kUnknownCardinality_def)

lemma MakeInputDatasets_3_0_5:
  "MakeInputDatasets (source_of [3, 0, 5]) [] =
     Some (Inr [0, 1, 2],
       [CallMakeIterator, CallInstantiate] @ materialization_events (source_of [3, 0, 5]) 3 @
       [CallGetNext])"
  by code_simp

lemma ComputeCardinalities_3_0_5:
  "ComputeCardinalities (source_of [3, 0, 5]) default_members [] =
     Some (Inr [3, 3, 8], default_members\<lparr>input_datasets := [0, 1, 2]\<rparr>,
       [CallMakeIterator, CallInstantiate] @ materialization_events (source_of [3, 0, 5]) 3 @
       [CallGetNext, CallCardinality 0, CallCardinality 1, CallCardinality 2])"
  by code_simp

lemma Cardinality_3_0_5:
  "Cardinality (source_of [3, 0, 5]) default_members [] =
     Some (Returns (Inr 8),
       default_members\<lparr>input_datasets := [0, 1, 2], cumulative_cardinalities := Inr [3, 3, 8]\<rparr>,
       [CallMakeIterator, CallInstantiate] @ materialization_events (source_of [3, 0, 5]) 3 @
       [CallGetNext, CallCardinality 0, CallCardinality 1, CallCardinality 2])"
  by code_simp

lemma Cardinality_3_0_5_again:
  "Cardinality (source_of [3, 0, 5])
     (default_members\<lparr>input_datasets := [0, 1, 2], cumulative_cardinalities := Inr [3, 3, 8]\<rparr>)
     ([CallMakeIterator, CallInstantiate] @ materialization_events (source_of [3, 0, 5]) 3 @
       [CallGetNext, CallCardinality 0, CallCardinality 1, CallCardinality 2]) =
     Some (Returns (Inr 8),
       default_members\<lparr>input_datasets := [0, 1, 2], cumulative_cardinalities := Inr [3, 3, 8]\<rparr>,
       [CallMakeIterator, CallInstantiate] @ materialization_events (source_of [3, 0, 5]) 3 @
       [CallGetNext, CallCardinality 0, CallCardinality 1, CallCardinality 2])"
  by code_simp

lemma MakeInputDatasets_4_inf_7:
  "MakeInputDatasets (source_of [4, kInfiniteCardinality, 7]) [] =
     Some (Inr [0, 1, 2],
       [CallMakeIterator, CallInstantiate] @
       materialization_events (source_of [4, kInfiniteCardinality, 7]) 3 @ [CallGetNext])"
  by code_simp

section \<open>The claims\<close>

text \<open>
  Claim C1 (the code differs). An error of the first pass is stored in the cached state,
  but the call that stored it does not return it: line 78 applies \<^verbatim>\<open>operator->\<close> to the
  \<^verbatim>\<open>StatusOr\<close> that now holds the error, which ends the process. Here opening the
  iterator of the input fails; the first \<^verbatim>\<open>Cardinality()\<close> on the constructed handler
  aborts.
\<close>

theorem first_call_aborts_on_iterator_error:
  "FlatMapRandomAccessHandler_ctor
     ((source_of [3])\<lparr>MakeIterator := Some (ErrorStatus kInternal ''no iterator'')\<rparr>) [] =
     (default_members, [CallClone]) \<and>
   Cardinality ((source_of [3])\<lparr>MakeIterator := Some (ErrorStatus kInternal ''no iterator'')\<rparr>)
     default_members [CallClone] =
     Some (Aborts StatusOrNotOk,
           default_members\<lparr>cumulative_cardinalities :=
             Inl (ErrorStatus kInternal ''no iterator'')\<rparr>,
           [CallClone, CallMakeIterator])"
  by (simp add: FlatMapRandomAccessHandler_ctor_def Cardinality_def ComputeCardinalities_def
      MakeInputDatasets_def cumulative_cardinalities_back_def default_members_def source_of_def)

text \<open>
  Claim C2 (the code differs). The input has two elements; the first maps to the dataset
  \<open>0\<close>, for the second the function returns two values. \<^verbatim>\<open>MakeInputDatasets\<close> takes a
  reference to the dataset \<open>0\<close>, then returns the invalid-argument error and drops its
  local vector. The member stays empty, so the destructor releases nothing: the dataset
  \<open>0\<close> is acquired once and never released.
\<close>

theorem aborted_materialization_leaks_reference:
  "ComputeCardinalities (returns_two_values_at 1 (source_of [3, 5])) default_members [] =
     Some (Inl (ErrorStatus kInvalidArgument
       ''Flat map function must return a single scalar of dtype DT_VARIANT representing a dataset.''),
       default_members,
       [CallMakeIterator, CallInstantiate, CallGetNext, CallRun [variant_scalar 0],
        CallGetDatasetFromVariantTensor (variant_scalar 0), CallRef 0,
        CallGetNext, CallRun [variant_scalar 1]]) \<and>
   FlatMapRandomAccessHandler_dtor default_members
       [CallMakeIterator, CallInstantiate, CallGetNext, CallRun [variant_scalar 0],
        CallGetDatasetFromVariantTensor (variant_scalar 0), CallRef 0,
        CallGetNext, CallRun [variant_scalar 1]] =
     (default_members,
       [CallMakeIterator, CallInstantiate, CallGetNext, CallRun [variant_scalar 0],
        CallGetDatasetFromVariantTensor (variant_scalar 0), CallRef 0,
        CallGetNext, CallRun [variant_scalar 1]]) \<and>
   acquired [CallMakeIterator, CallInstantiate, CallGetNext, CallRun [variant_scalar 0],
        CallGetDatasetFromVariantTensor (variant_scalar 0), CallRef 0,
        CallGetNext, CallRun [variant_scalar 1]] = [0] \<and>
   released [CallMakeIterator, CallInstantiate, CallGetNext, CallRun [variant_scalar 0],
        CallGetDatasetFromVariantTensor (variant_scalar 0), CallRef 0,
        CallGetNext, CallRun [variant_scalar 1]] = []"
  by code_simp

text \<open>
  Claim C3. When the cardinalities of the sub-sequences \<open>0..i\<close> are all finite, the walk
  computes entry \<open>i\<close> of the cumulative table as the sum of the cardinalities of the
  sub-sequences \<open>0\<close> through \<open>i\<close> (entry \<open>0\<close> is the first cardinality), and
  \<^verbatim>\<open>Cardinality()\<close> returns the last entry of the table. The sum is the sum of
  \<^verbatim>\<open>int64_t\<close> values; where the cardinalities are non-negative and their integer sum
  is below \<open>2 ^ 63\<close>, the entry read as a signed integer is that integer sum. For the
  finite cardinalities \<open>[3, 0, 5]\<close> the table is \<open>[3, 3, 8]\<close> and the result \<open>8\<close>.
\<close>

theorem cumulative_table_entries_are_prefix_sums:
  assumes "input_datasets h = []" and "cumulative_cardinalities h = Inr []"
    and "MakeInputDatasets env tr = Some (Inr ds, tr1)"
    and "i < length ds"
    and "\<forall>j\<le>i. finite_cardinality (DatasetCardinality env (ds ! j))"
  shows "\<exists>table tr2.
      ComputeCardinalities env h tr = Some (Inr table, h\<lparr>input_datasets := ds\<rparr>, tr2) \<and>
      Cardinality env h tr =
        Some (Returns (Inr (last table)),
              h\<lparr>input_datasets := ds, cumulative_cardinalities := Inr table\<rparr>, tr2) \<and>
      i < length table \<and> length table \<le> length ds \<and>
      table ! i = sum_list (map (DatasetCardinality env) (take (Suc i) ds)) \<and>
      table ! 0 = DatasetCardinality env (ds ! 0) \<and>
      ((\<forall>j\<le>i. 0 \<le> sint (DatasetCardinality env (ds ! j))) \<and>
       (\<Sum>j\<le>i. sint (DatasetCardinality env (ds ! j))) < 2 ^ 63 \<longrightarrow>
       sint (table ! i) = (\<Sum>j\<le>i. sint (DatasetCardinality env (ds ! j))))"
proof -
  from assms(4,5) obtain table tr2 where
    table: "ComputeCardinalities_table env ds tr1 = (table, tr2)"
    and entries: "i < length table" "length table \<le> length ds"
      "table ! i = sum_list (map (DatasetCardinality env) (take (Suc i) ds))"
      "table ! 0 = DatasetCardinality env (ds ! 0)"
    by (rule ComputeCardinalities_table_finite_prefix)
  have computed: "ComputeCardinalities env h tr =
      Some (Inr table, h\<lparr>input_datasets := ds\<rparr>, tr2)"
    using assms(1,3) table by (rule ComputeCardinalities_fresh)
  from Cardinality_fresh [OF assms(2) computed]
  have "Cardinality env h tr =
      Some (Returns (Inr (last table)),
            h\<lparr>input_datasets := ds, cumulative_cardinalities := Inr table\<rparr>, tr2)"
    by simp
  moreover have "sint (table ! i) = (\<Sum>j\<le>i. sint (DatasetCardinality env (ds ! j)))"
    if "\<forall>j\<le>i. 0 \<le> sint (DatasetCardinality env (ds ! j))"
      and "(\<Sum>j\<le>i. sint (DatasetCardinality env (ds ! j))) < 2 ^ 63"
    using prefix_sum_as_integer [OF that(1) assms(4) that(2)] entries(3) by simp
  ultimately show ?thesis
    using computed entries
    by (intro exI [of _ table] exI [of _ tr2]) simp
qed

theorem cumulative_table_entries_are_prefix_sums_witness:
  "input_datasets default_members = [] \<and> cumulative_cardinalities default_members = Inr [] \<and>
   MakeInputDatasets (source_of [3, 0, 5]) [] =
     Some (Inr [0, 1, 2],
       [CallMakeIterator, CallInstantiate] @ materialization_events (source_of [3, 0, 5]) 3 @
       [CallGetNext]) \<and>
   2 < length [0, 1, 2 :: dataset] \<and>
   finite_cardinality (DatasetCardinality (source_of [3, 0, 5]) ([0, 1, 2] ! 0)) \<and>
   finite_cardinality (DatasetCardinality (source_of [3, 0, 5]) ([0, 1, 2] ! 1)) \<and>
   finite_cardinality (DatasetCardinality (source_of [3, 0, 5]) ([0, 1, 2] ! 2)) \<and>
   (\<exists>tr2.
      ComputeCardinalities (source_of [3, 0, 5]) default_members [] =
        Some (Inr [3, 3, 8], default_members\<lparr>input_datasets := [0, 1, 2]\<rparr>, tr2) \<and>
      Cardinality (source_of [3, 0, 5]) default_members [] =
        Some (Returns (Inr 8),
              default_members\<lparr>input_datasets := [0, 1, 2],
                cumulative_cardinalities := Inr [3, 3, 8]\<rparr>, tr2) \<and>
      [3, 3, 8 :: int64] ! 2 = 3 + 0 + 5 \<and> [3, 3, 8 :: int64] ! 0 = 3 \<and>
      sint ([3, 3, 8 :: int64] ! 2) = 3 + 0 + 5)"
proof -
  have fresh: "input_datasets default_members = []"
    "cumulative_cardinalities default_members = Inr []"
    by (simp_all add: default_members_def)
  have cards: "DatasetCardinality (source_of [3, 0, 5]) ([0, 1, 2] ! 0) = 3"
    "DatasetCardinality (source_of [3, 0, 5]) ([0, 1, 2] ! 1) = 0"
    "DatasetCardinality (source_of [3, 0, 5]) ([0, 1, 2] ! 2) = 5"
    by (simp_all add: source_of_def)
  have finite: "\<forall>j\<le>2. finite_cardinality (DatasetCardinality (source_of [3, 0, 5]) ([0, 1, 2] ! j))"
  proof (intro allI impI)
    fix j :: nat assume "j \<le> 2"
    then have "j = 0 \<or> j = 1 \<or> j = 2" by arith
    with cards show "finite_cardinality (DatasetCardinality (source_of [3, 0, 5]) ([0, 1, 2] ! j))"
      by (auto simp add: finite_cardinality_numerals)
  qed
  from cumulative_table_entries_are_prefix_sums
    [OF fresh MakeInputDatasets_3_0_5 _ finite]
  obtain table tr2 where
    computed: "ComputeCardinalities (source_of [3, 0, 5]) default_members [] =
      Some (Inr table, default_members\<lparr>input_datasets := [0, 1, 2]\<rparr>, tr2)"
    and returned: "Cardinality (source_of [3, 0, 5]) default_members [] =
      Some (Returns (Inr (last table)),
            default_members\<lparr>input_datasets := [0, 1, 2],
              cumulative_cardinalities := Inr table\<rparr>, tr2)"
    and entry: "table ! 2 =
      sum_list (map (DatasetCardinality (source_of [3, 0, 5])) (take (Suc 2) [0, 1, 2]))"
    and as_integer:
      "(\<forall>j\<le>2. 0 \<le> sint (DatasetCardinality (source_of [3, 0, 5]) ([0, 1, 2] ! j))) \<and>
       (\<Sum>j\<le>2. sint (DatasetCardinality (source_of [3, 0, 5]) ([0, 1, 2] ! j))) < 2 ^ 63 \<longrightarrow>
       sint (table ! 2) =
         (\<Sum>j\<le>2. sint (DatasetCardinality (source_of [3, 0, 5]) ([0, 1, 2] ! j)))"
    by auto
  from computed ComputeCardinalities_3_0_5 have table: "table = [3, 3, 8]" by simp
  from entry have word_sum: "table ! 2 = 3 + 0 + 5" by (simp add: source_of_def)
  have nonneg: "\<forall>j\<le>2. 0 \<le> sint (DatasetCardinality (source_of [3, 0, 5]) ([0, 1, 2] ! j))"
  proof (intro allI impI)
    fix j :: nat assume "j \<le> 2"
    then have "j = 0 \<or> j = 1 \<or> j = 2" by arith
    with cards show "0 \<le> sint (DatasetCardinality (source_of [3, 0, 5]) ([0, 1, 2] ! j))"
      by auto
  qed
  have "{..2::nat} = {0, 1, 2}" by auto
  with cards
  have integer_sum: "(\<Sum>j\<le>2. sint (DatasetCardinality (source_of [3, 0, 5]) ([0, 1, 2] ! j))) = 8"
    by simp
  with as_integer nonneg have "sint (table ! 2) = 3 + 0 + 5" by simp
  with word_sum computed returned table fresh cards MakeInputDatasets_3_0_5
  show ?thesis by (simp add: finite_cardinality_numerals)
qed

text \<open>
  Claim C4. When a sub-sequence has cardinality INFINITE or UNKNOWN, the walk pushes the
  first such sentinel as the last entry of the table and stops: the table is the running
  sums of the sub-sequences before it followed by the sentinel, the only cardinalities
  queried are those of the sub-sequences up to and including it, and
  \<^verbatim>\<open>Cardinality()\<close> returns the sentinel. For the cardinalities
  \<open>[4, INFINITE, 7]\<close> the table is \<open>[4, INFINITE]\<close> and the result INFINITE.
\<close>

theorem sentinel_short_circuit:
  assumes "input_datasets h = []" and "cumulative_cardinalities h = Inr []"
    and "MakeInputDatasets env tr = Some (Inr ds, tr1)"
    and "k < length ds"
    and "\<forall>j<k. finite_cardinality (DatasetCardinality env (ds ! j))"
    and "DatasetCardinality env (ds ! k) = kInfiniteCardinality \<or>
         DatasetCardinality env (ds ! k) = kUnknownCardinality"
  shows "ComputeCardinalities env h tr =
           Some (Inr (prefix_sums env ds k @ [DatasetCardinality env (ds ! k)]),
                 h\<lparr>input_datasets := ds\<rparr>,
                 tr1 @ map CallCardinality (take (Suc k) ds)) \<and>
         Cardinality env h tr =
           Some (Returns (Inr (DatasetCardinality env (ds ! k))),
                 h\<lparr>input_datasets := ds,
                   cumulative_cardinalities :=
                     Inr (prefix_sums env ds k @ [DatasetCardinality env (ds ! k)])\<rparr>,
                 tr1 @ map CallCardinality (take (Suc k) ds))"
proof -
  from assms(6) have sentinel: "\<not> finite_cardinality (DatasetCardinality env (ds ! k))"
    by (auto simp add: finite_cardinality_def)
  have table: "ComputeCardinalities_table env ds tr1 =
      (prefix_sums env ds k @ [DatasetCardinality env (ds ! k)],
       tr1 @ map CallCardinality (take (Suc k) ds))"
    using assms(4,5) sentinel by (rule ComputeCardinalities_table_first_sentinel)
  have computed: "ComputeCardinalities env h tr =
      Some (Inr (prefix_sums env ds k @ [DatasetCardinality env (ds ! k)]),
            h\<lparr>input_datasets := ds\<rparr>, tr1 @ map CallCardinality (take (Suc k) ds))"
    using assms(1,3) table by (rule ComputeCardinalities_fresh)
  from Cardinality_fresh [OF assms(2) computed] computed
  show ?thesis by simp
qed

theorem sentinel_short_circuit_witness:
  "input_datasets default_members = [] \<and> cumulative_cardinalities default_members = Inr [] \<and>
   MakeInputDatasets (source_of [4, kInfiniteCardinality, 7]) [] =
     Some (Inr [0, 1, 2],
       [CallMakeIterator, CallInstantiate] @
       materialization_events (source_of [4, kInfiniteCardinality, 7]) 3 @ [CallGetNext]) \<and>
   1 < length [0, 1, 2 :: dataset] \<and>
   finite_cardinality (DatasetCardinality (source_of [4, kInfiniteCardinality, 7]) ([0, 1, 2] ! 0)) \<and>
   DatasetCardinality (source_of [4, kInfiniteCardinality, 7]) ([0, 1, 2] ! 1) =
     kInfiniteCardinality \<and>
   ComputeCardinalities (source_of [4, kInfiniteCardinality, 7]) default_members [] =
     Some (Inr [4, kInfiniteCardinality], default_members\<lparr>input_datasets := [0, 1, 2]\<rparr>,
       [CallMakeIterator, CallInstantiate] @
       materialization_events (source_of [4, kInfiniteCardinality, 7]) 3 @
       [CallGetNext, CallCardinality 0, CallCardinality 1]) \<and>
   Cardinality (source_of [4, kInfiniteCardinality, 7]) default_members [] =
     Some (Returns (Inr kInfiniteCardinality),
       default_members\<lparr>input_datasets := [0, 1, 2],
         cumulative_cardinalities := Inr [4, kInfiniteCardinality]\<rparr>,
       [CallMakeIterator, CallInstantiate] @
       materialization_events (source_of [4, kInfiniteCardinality, 7]) 3 @
       [CallGetNext, CallCardinality 0, CallCardinality 1])"
proof -
  have fresh: "input_datasets default_members = []"
    "cumulative_cardinalities default_members = Inr []"
    by (simp_all add: default_members_def)
  have cards: "DatasetCardinality (source_of [4, kInfiniteCardinality, 7]) ([0, 1, 2] ! 0) = 4"
    "DatasetCardinality (source_of [4, kInfiniteCardinality, 7]) ([0, 1, 2] ! 1) =
       kInfiniteCardinality"
    by (simp_all add: source_of_def)
  have finite: "\<forall>j<1. finite_cardinality
      (DatasetCardinality (source_of [4, kInfiniteCardinality, 7]) ([0, 1, 2] ! j))"
    using cards(1) by (simp add: finite_cardinality_numerals)
  have sums: "prefix_sums (source_of [4, kInfiniteCardinality, 7]) [0, 1, 2] 1 = [4]"
    by (simp add: prefix_sums_def source_of_def)
  from sentinel_short_circuit [OF fresh MakeInputDatasets_4_inf_7 _ finite disjI1 [OF cards(2)]]
    fresh cards MakeInputDatasets_4_inf_7 sums
  show ?thesis by (simp add: finite_cardinality_numerals)
qed

text \<open>
  Claim C5. If cloning the environment fails during construction, the constructor does
  not fail: it leaves a handler whose cached state is the clone's error, and every call of
  \<^verbatim>\<open>Cardinality()\<close> returns that same error and makes no call at all: the trace stays as
  the constructor left it, so no iterator is opened and the function is neither
  instantiated nor run.
\<close>

theorem clone_failure_poisons_handler:
  assumes "Clone env = Some e"
  shows "FlatMapRandomAccessHandler_ctor env tr =
           (default_members\<lparr>cumulative_cardinalities := Inl e\<rparr>, tr @ [CallClone]) \<and>
         Cardinality_calls env n (default_members\<lparr>cumulative_cardinalities := Inl e\<rparr>)
             (tr @ [CallClone]) =
           Some (replicate n (Returns (Inl e)),
                 default_members\<lparr>cumulative_cardinalities := Inl e\<rparr>, tr @ [CallClone])"
proof -
  have constructed: "FlatMapRandomAccessHandler_ctor env tr =
      (default_members\<lparr>cumulative_cardinalities := Inl e\<rparr>, tr @ [CallClone])"
    using assms by (simp add: FlatMapRandomAccessHandler_ctor_def)
  have "Cardinality env (default_members\<lparr>cumulative_cardinalities := Inl e\<rparr>) (tr @ [CallClone]) =
      Some (Returns (Inl e), default_members\<lparr>cumulative_cardinalities := Inl e\<rparr>,
            tr @ [CallClone])"
    by (rule Cardinality_failed) simp
  then have "Cardinality_calls env n (default_members\<lparr>cumulative_cardinalities := Inl e\<rparr>)
      (tr @ [CallClone]) =
      Some (replicate n (Returns (Inl e)), default_members\<lparr>cumulative_cardinalities := Inl e\<rparr>,
            tr @ [CallClone])"
    by (rule Cardinality_calls_returning)
  with constructed show ?thesis by simp
qed

theorem clone_failure_poisons_handler_witness:
  "Clone ((source_of [3, 0, 5])\<lparr>Clone := Some (ErrorStatus kInternal ''clone failed'')\<rparr>) =
     Some (ErrorStatus kInternal ''clone failed'') \<and>
   FlatMapRandomAccessHandler_ctor
     ((source_of [3, 0, 5])\<lparr>Clone := Some (ErrorStatus kInternal ''clone failed'')\<rparr>) [] =
     (default_members\<lparr>cumulative_cardinalities :=
        Inl (ErrorStatus kInternal ''clone failed'')\<rparr>, [CallClone]) \<and>
   Cardinality_calls
     ((source_of [3, 0, 5])\<lparr>Clone := Some (ErrorStatus kInternal ''clone failed'')\<rparr>) 3
     (default_members\<lparr>cumulative_cardinalities :=
        Inl (ErrorStatus kInternal ''clone failed'')\<rparr>) [CallClone] =
     Some ([Returns (Inl (ErrorStatus kInternal ''clone failed'')),
            Returns (Inl (ErrorStatus kInternal ''clone failed'')),
            Returns (Inl (ErrorStatus kInternal ''clone failed''))],
           default_members\<lparr>cumulative_cardinalities :=
             Inl (ErrorStatus kInternal ''clone failed'')\<rparr>,
           [CallClone])"
proof -
  have thrice: "replicate 3 x = [x, x, x]" for x :: "(error_status + int64) call"
    by (simp add: numeral_3_eq_3)
  have failing: "Clone ((source_of [3, 0, 5])\<lparr>Clone := Some (ErrorStatus kInternal ''clone failed'')\<rparr>) =
      Some (ErrorStatus kInternal ''clone failed'')"
    by simp
  from clone_failure_poisons_handler [OF failing, of "[]" 3] failing
  show ?thesis unfolding thrice by simp
qed

text \<open>
  Claim C6. At every element of the source that is reached: if the result of the mapping
  function is not exactly one value of type \<^verbatim>\<open>DT_VARIANT\<close> with scalar shape,
  materialization aborts at once with an invalid-argument error (no decode, no
  \<^verbatim>\<open>Ref\<close>, no further pull follows the function's run), no partial list of sub-sequences
  is returned, and the handler's state keeps none: \<^verbatim>\<open>ComputeCardinalities\<close> returns the
  error and leaves the handler as it was.
\<close>

theorem invalid_shape_aborts_materialization:
  assumes "MakeIterator env = None" and "Instantiate env = None"
    and "\<forall>j<i. mapped_dataset env j \<noteq> None"
    and "GetNext env i = NextElement x" and "Run env x = Inr mapped_tensors"
    and "\<not> (length mapped_tensors = 1 \<and> dtype (mapped_tensors ! 0) = DT_VARIANT \<and>
            IsScalar (shape (mapped_tensors ! 0)))"
    and "input_datasets h = []"
  shows "MakeInputDatasets env tr =
           Some (Inl (ErrorStatus kInvalidArgument
             ''Flat map function must return a single scalar of dtype DT_VARIANT representing a dataset.''),
             tr @ [CallMakeIterator, CallInstantiate] @ materialization_events env i @
               [CallGetNext, CallRun x]) \<and>
         ComputeCardinalities env h tr =
           Some (Inl (ErrorStatus kInvalidArgument
             ''Flat map function must return a single scalar of dtype DT_VARIANT representing a dataset.''),
             h,
             tr @ [CallMakeIterator, CallInstantiate] @ materialization_events env i @
               [CallGetNext, CallRun x])"
  using MakeInputDatasets_invalid_shape [OF assms(1-6), of tr] assms(7)
  by (simp add: ComputeCardinalities_def InvalidArgumentError_def)

theorem invalid_shape_aborts_materialization_witness:
  "MakeIterator (returns_two_values_at 1 (source_of [3, 5])) = None \<and>
   Instantiate (returns_two_values_at 1 (source_of [3, 5])) = None \<and>
   mapped_dataset (returns_two_values_at 1 (source_of [3, 5])) 0 \<noteq> None \<and>
   GetNext (returns_two_values_at 1 (source_of [3, 5])) 1 = NextElement [variant_scalar 1] \<and>
   Run (returns_two_values_at 1 (source_of [3, 5])) [variant_scalar 1] =
     Inr [variant_scalar 1, variant_scalar 1] \<and>
   length [variant_scalar 1, variant_scalar 1] \<noteq> 1 \<and>
   input_datasets default_members = [] \<and>
   MakeInputDatasets (returns_two_values_at 1 (source_of [3, 5])) [] =
     Some (Inl (ErrorStatus kInvalidArgument
       ''Flat map function must return a single scalar of dtype DT_VARIANT representing a dataset.''),
       [CallMakeIterator, CallInstantiate, CallGetNext, CallRun [variant_scalar 0],
        CallGetDatasetFromVariantTensor (variant_scalar 0), CallRef 0,
        CallGetNext, CallRun [variant_scalar 1]]) \<and>
   ComputeCardinalities (returns_two_values_at 1 (source_of [3, 5])) default_members [] =
     Some (Inl (ErrorStatus kInvalidArgument
       ''Flat map function must return a single scalar of dtype DT_VARIANT representing a dataset.''),
       default_members,
       [CallMakeIterator, CallInstantiate, CallGetNext, CallRun [variant_scalar 0],
        CallGetDatasetFromVariantTensor (variant_scalar 0), CallRef 0,
        CallGetNext, CallRun [variant_scalar 1]])"
proof -
  let ?env = "returns_two_values_at 1 (source_of [3, 5])"
  have opened: "MakeIterator ?env = None" "Instantiate ?env = None"
    by (simp_all add: returns_two_values_at_def source_of_def)
  have first: "mapped_dataset ?env 0 = Some 0"
    by (simp add: mapped_dataset_def returns_two_values_at_def source_of_def
        variant_scalar_def IsScalar_def)
  then have prefix: "\<forall>j<1. mapped_dataset ?env j \<noteq> None" by simp
  have pulled: "GetNext ?env 1 = NextElement [variant_scalar 1]"
    by (simp add: returns_two_values_at_def source_of_def)
  have ran: "Run ?env [variant_scalar 1] = Inr [variant_scalar 1, variant_scalar 1]"
    by (simp add: returns_two_values_at_def source_of_def variant_scalar_def)
  have two: "\<not> (length [variant_scalar 1, variant_scalar 1] = 1 \<and>
      dtype ([variant_scalar 1, variant_scalar 1] ! 0) = DT_VARIANT \<and>
      IsScalar (shape ([variant_scalar 1, variant_scalar 1] ! 0)))"
    by simp
  have fresh: "input_datasets default_members = []"
    by (simp add: default_members_def)
  have events: "materialization_events ?env 1 =
      [CallGetNext, CallRun [variant_scalar 0],
       CallGetDatasetFromVariantTensor (variant_scalar 0), CallRef 0]"
    by (simp add: materialization_events_def iteration_events_def returns_two_values_at_def
        source_of_def variant_scalar_def)
  from invalid_shape_aborts_materialization [OF opened prefix pulled ran two fresh, of "[]"]
    opened first pulled ran fresh events
  show ?thesis by simp
qed

text \<open>
  Claim C7. For a source sequence with zero elements (the iterator opens, the function
  instantiates and the first pull signals the end of the sequence), materialization
  returns the empty list of sub-sequences, the cumulative cardinality table is \<open>[0]\<close>,
  and \<^verbatim>\<open>Cardinality()\<close> on a fresh handler returns \<open>0\<close>.
\<close>

theorem empty_source_cardinality_zero:
  assumes "MakeIterator env = None" and "Instantiate env = None"
    and "GetNext env 0 = EndOfSequence"
    and "input_datasets h = []" and "cumulative_cardinalities h = Inr []"
  shows "MakeInputDatasets env tr =
           Some (Inr [], tr @ [CallMakeIterator, CallInstantiate, CallGetNext]) \<and>
         ComputeCardinalities env h tr =
           Some (Inr [0], h, tr @ [CallMakeIterator, CallInstantiate, CallGetNext]) \<and>
         Cardinality env h tr =
           Some (Returns (Inr 0), h\<lparr>cumulative_cardinalities := Inr [0]\<rparr>,
                 tr @ [CallMakeIterator, CallInstantiate, CallGetNext])"
proof -
  have materialized: "MakeInputDatasets env tr =
      Some (Inr [], tr @ [CallMakeIterator, CallInstantiate, CallGetNext])"
    using assms(1-3)
    by (simp add: MakeInputDatasets_def MakeInputDatasets_loop.simps [of env 0])
  have computed: "ComputeCardinalities env h tr =
      Some (Inr [0], h, tr @ [CallMakeIterator, CallInstantiate, CallGetNext])"
    using ComputeCardinalities_fresh [OF assms(4) materialized ComputeCardinalities_table_Nil]
      update_input_datasets_same [OF assms(4)]
    by simp
  from Cardinality_fresh [OF assms(5) computed] materialized computed
  show ?thesis by simp
qed

theorem empty_source_cardinality_zero_witness:
  "MakeIterator (source_of []) = None \<and> Instantiate (source_of []) = None \<and>
   GetNext (source_of []) 0 = EndOfSequence \<and>
   input_datasets default_members = [] \<and> cumulative_cardinalities default_members = Inr [] \<and>
   MakeInputDatasets (source_of []) [] =
     Some (Inr [], [CallMakeIterator, CallInstantiate, CallGetNext]) \<and>
   ComputeCardinalities (source_of []) default_members [] =
     Some (Inr [0], default_members, [CallMakeIterator, CallInstantiate, CallGetNext]) \<and>
   Cardinality (source_of []) default_members [] =
     Some (Returns (Inr 0), default_members\<lparr>cumulative_cardinalities := Inr [0]\<rparr>,
           [CallMakeIterator, CallInstantiate, CallGetNext])"
  using empty_source_cardinality_zero [of "source_of []" default_members "[]"]
  by (simp add: source_of_def default_members_def)

text \<open>
  Claim C8 (the code differs). The function returns two values for the only element of
  the input. Of two calls of \<^verbatim>\<open>Cardinality()\<close> in a row the first ends the process
  instead of returning the invalid-argument error, so there is no second result.
\<close>

theorem repeated_calls_abort_on_first_error:
  "Cardinality_calls (returns_two_values_at 0 (source_of [3])) 2 default_members [CallClone] =
     Some ([Aborts StatusOrNotOk],
       default_members\<lparr>cumulative_cardinalities := Inl (ErrorStatus kInvalidArgument
         ''Flat map function must return a single scalar of dtype DT_VARIANT representing a dataset.'')\<rparr>,
       [CallClone, CallMakeIterator, CallInstantiate, CallGetNext, CallRun [variant_scalar 0]])"
  by code_simp

text \<open>
  Claim C9. The cached state moves one way only. A call of \<^verbatim>\<open>Cardinality()\<close> that ends
  (by returning or by ending the process) never leaves the state not-yet-computed (an OK,
  empty table): it leaves it failed or computed. From a failed or computed state a call
  changes neither the handler nor the trace, and so does any number of further calls:
  nothing is recomputed and the stored value never changes.
\<close>

theorem cached_state_is_monotonic:
  assumes "Cardinality env h tr = Some (c, h1, tr1)"
  shows "cumulative_cardinalities h1 \<noteq> Inr [] \<and>
         (cumulative_cardinalities h \<noteq> Inr [] \<longrightarrow> h1 = h \<and> tr1 = tr) \<and>
         (\<forall>n. \<exists>rs. Cardinality_calls env n h1 tr1 = Some (rs, h1, tr1))"
proof (intro conjI impI allI)
  show cached: "cumulative_cardinalities h1 \<noteq> Inr []"
    using assms by (rule Cardinality_leaves_cached)
  show "h1 = h" and "tr1 = tr" if "cumulative_cardinalities h \<noteq> Inr []"
  proof -
    from that obtain r where "Cardinality env h tr = Some (Returns r, h, tr)"
      by (rule Cardinality_cached)
    with assms show "h1 = h" and "tr1 = tr" by simp_all
  qed
  show "\<exists>rs. Cardinality_calls env n h1 tr1 = Some (rs, h1, tr1)" for n
  proof -
    from cached obtain r where "Cardinality env h1 tr1 = Some (Returns r, h1, tr1)"
      by (rule Cardinality_cached)
    then have "Cardinality_calls env n h1 tr1 = Some (replicate n (Returns r), h1, tr1)"
      by (rule Cardinality_calls_returning)
    then show ?thesis by blast
  qed
qed

theorem cached_state_is_monotonic_witness:
  "Cardinality (source_of [3, 0, 5]) default_members [] =
     Some (Returns (Inr 8),
       default_members\<lparr>input_datasets := [0, 1, 2], cumulative_cardinalities := Inr [3, 3, 8]\<rparr>,
       [CallMakeIterator, CallInstantiate] @ materialization_events (source_of [3, 0, 5]) 3 @
       [CallGetNext, CallCardinality 0, CallCardinality 1, CallCardinality 2]) \<and>
   cumulative_cardinalities
     (default_members\<lparr>input_datasets := [0, 1, 2], cumulative_cardinalities := Inr [3, 3, 8]\<rparr>) \<noteq>
     Inr [] \<and>
   (\<exists>rs. Cardinality_calls (source_of [3, 0, 5]) 2
     (default_members\<lparr>input_datasets := [0, 1, 2], cumulative_cardinalities := Inr [3, 3, 8]\<rparr>)
     ([CallMakeIterator, CallInstantiate] @ materialization_events (source_of [3, 0, 5]) 3 @
       [CallGetNext, CallCardinality 0, CallCardinality 1, CallCardinality 2]) =
     Some (rs,
       default_members\<lparr>input_datasets := [0, 1, 2], cumulative_cardinalities := Inr [3, 3, 8]\<rparr>,
       [CallMakeIterator, CallInstantiate] @ materialization_events (source_of [3, 0, 5]) 3 @
       [CallGetNext, CallCardinality 0, CallCardinality 1, CallCardinality 2])) \<and>
   Cardinality (source_of [3, 0, 5])
     (default_members\<lparr>input_datasets := [0, 1, 2], cumulative_cardinalities := Inr [3, 3, 8]\<rparr>)
     ([CallMakeIterator, CallInstantiate] @ materialization_events (source_of [3, 0, 5]) 3 @
       [CallGetNext, CallCardinality 0, CallCardinality 1, CallCardinality 2]) =
     Some (Returns (Inr 8),
       default_members\<lparr>input_datasets := [0, 1, 2], cumulative_cardinalities := Inr [3, 3, 8]\<rparr>,
       [CallMakeIterator, CallInstantiate] @ materialization_events (source_of [3, 0, 5]) 3 @
       [CallGetNext, CallCardinality 0, CallCardinality 1, CallCardinality 2])"
  using cached_state_is_monotonic [OF Cardinality_3_0_5]
    cached_state_is_monotonic [OF Cardinality_3_0_5_again]
    Cardinality_3_0_5 Cardinality_3_0_5_again
  by blast

text \<open>
  Claim C10. Whenever \<^verbatim>\<open>ComputeCardinalities\<close> returns successfully, the table it returns
  is not empty, so the \<^verbatim>\<open>back()\<close> that \<^verbatim>\<open>Cardinality()\<close> takes of the table it has just
  cached is well defined: it returns the last entry and does not abort. The table is
  \<open>[0]\<close> for an empty list of datasets, or the running sums up to the first sentinel
  followed by that sentinel, or one running sum per dataset.
\<close>

theorem ComputeCardinalities_table_never_empty:
  assumes "ComputeCardinalities env h tr = Some (Inr table, h1, tr1)"
  shows "table \<noteq> [] \<and>
         cumulative_cardinalities_back (h1\<lparr>cumulative_cardinalities := Inr table\<rparr>) =
           Returns (Inr (last table)) \<and>
         ((input_datasets h1 = [] \<and> table = [0]) \<or>
          (\<exists>k<length (input_datasets h1).
             (\<forall>j<k. finite_cardinality (DatasetCardinality env (input_datasets h1 ! j))) \<and>
             \<not> finite_cardinality (DatasetCardinality env (input_datasets h1 ! k)) \<and>
             table = prefix_sums env (input_datasets h1) k @
               [DatasetCardinality env (input_datasets h1 ! k)]) \<or>
          (input_datasets h1 \<noteq> [] \<and>
           table = prefix_sums env (input_datasets h1) (length (input_datasets h1))))"
proof -
  from assms obtain tr0 where
    "ComputeCardinalities_table env (input_datasets h1) tr0 = (table, tr1)"
    by (rule ComputeCardinalities_Inr)
  then have "(input_datasets h1 = [] \<and> table = [0]) \<or>
      (\<exists>k<length (input_datasets h1).
         (\<forall>j<k. finite_cardinality (DatasetCardinality env (input_datasets h1 ! j))) \<and>
         \<not> finite_cardinality (DatasetCardinality env (input_datasets h1 ! k)) \<and>
         table = prefix_sums env (input_datasets h1) k @
           [DatasetCardinality env (input_datasets h1 ! k)]) \<or>
      (input_datasets h1 \<noteq> [] \<and>
       table = prefix_sums env (input_datasets h1) (length (input_datasets h1)))"
    by (rule ComputeCardinalities_table_shape)
  with ComputeCardinalities_nonempty [OF assms] show ?thesis
    by (simp add: cumulative_cardinalities_back_def)
qed

theorem ComputeCardinalities_table_never_empty_witness:
  "ComputeCardinalities (source_of [3, 0, 5]) default_members [] =
     Some (Inr [3, 3, 8], default_members\<lparr>input_datasets := [0, 1, 2]\<rparr>,
       [CallMakeIterator, CallInstantiate] @ materialization_events (source_of [3, 0, 5]) 3 @
       [CallGetNext, CallCardinality 0, CallCardinality 1, CallCardinality 2]) \<and>
   [3, 3, 8 :: int64] \<noteq> [] \<and>
   cumulative_cardinalities_back
     (default_members\<lparr>input_datasets := [0, 1, 2], cumulative_cardinalities := Inr [3, 3, 8]\<rparr>) =
     Returns (Inr 8)"
  using ComputeCardinalities_table_never_empty [OF ComputeCardinalities_3_0_5]
    ComputeCardinalities_3_0_5
  by simp

end
